theory Spec2Isabelle
  imports Complex_Main
begin

section \<open>JavaScript values\<close>

text \<open>
  The scholarship evaluator is a Node.js program: \<^verbatim>\<open>services/evaluationService.js\<close>
  (text extraction, the mock and the AI evaluator) and the route
  \<^verbatim>\<open>POST /api/applications/submit\<close>. Its data are JavaScript values, modelled here as far
  as the program builds and inspects them. The lines the program writes to the console are
  left out throughout.

  A number is an IEEE double. \<open>Fin q\<close> stands for the double whose value is the rational
  \<open>q\<close>; the three special doubles are constructors of their own. Comparison of two doubles
  is comparison of their values, so \<open>js_le\<close> and \<open>js_lt\<close> are exact. What is not modelled
  is the rounding of a decimal text to the nearest double (and negative zero): \<open>parseInt\<close>,
  \<open>parseFloat\<close> and \<open>JSON_parse\<close> below return the exact value of the digits they read.
\<close>

datatype jsnum = NaN | Fin rat | PosInf | NegInf

text \<open>The relational operators \<^verbatim>\<open><\<close> and \<^verbatim>\<open><=\<close> on numbers: false as soon as one side is NaN.\<close>

fun js_lt :: "jsnum \<Rightarrow> jsnum \<Rightarrow> bool" where
  "js_lt NaN _ = False"
| "js_lt _ NaN = False"
| "js_lt (Fin a) (Fin b) = (a < b)"
| "js_lt (Fin _) PosInf = True"
| "js_lt (Fin _) NegInf = False"
| "js_lt PosInf _ = False"
| "js_lt NegInf (Fin _) = True"
| "js_lt NegInf PosInf = True"
| "js_lt NegInf NegInf = False"

fun js_le :: "jsnum \<Rightarrow> jsnum \<Rightarrow> bool" where
  "js_le NaN _ = False"
| "js_le _ NaN = False"
| "js_le (Fin a) (Fin b) = (a \<le> b)"
| "js_le (Fin _) PosInf = True"
| "js_le (Fin _) NegInf = False"
| "js_le PosInf PosInf = True"
| "js_le PosInf _ = False"
| "js_le NegInf _ = True"

fun js_neg :: "jsnum \<Rightarrow> jsnum" where
  "js_neg NaN = NaN"
| "js_neg (Fin a) = Fin (- a)"
| "js_neg PosInf = NegInf"
| "js_neg NegInf = PosInf"

text \<open>
  Strings are lists of 8-bit characters (the UTF-8 bytes of the text). An object is the list
  of its properties in the order they were written; reading a property takes the last
  binding of the key, as an object literal and \<^verbatim>\<open>JSON.parse\<close> both do.
\<close>

datatype jsval =
    JUndefined
  | JNull
  | JBool bool
  | JNum jsnum
  | JStr string
  | JArr "jsval list"
  | JObj "(string \<times> jsval) list"

datatype js_error =
    TypeError
  | SyntaxError
  | IOError string
  | ServiceError string

text \<open>
  \<^verbatim>\<open>v.key\<close>: a TypeError on \<^verbatim>\<open>null\<close> and \<^verbatim>\<open>undefined\<close>, the own property of an object,
  \<^verbatim>\<open>undefined\<close> otherwise. The program reads only keys that no built-in prototype defines
  (\<^verbatim>\<open>confidence_score\<close>, \<^verbatim>\<open>qualified\<close>, the keys of the evaluation result).
\<close>

fun getProp :: "jsval \<Rightarrow> string \<Rightarrow> js_error + jsval" where
  "getProp JUndefined k = Inl TypeError"
| "getProp JNull k = Inl TypeError"
| "getProp (JObj kvs) k = Inr (case map_of (rev kvs) k of None \<Rightarrow> JUndefined | Some v \<Rightarrow> v)"
| "getProp _ k = Inr JUndefined"

fun getPath :: "jsval \<Rightarrow> string list \<Rightarrow> js_error + jsval" where
  "getPath v [] = Inr v"
| "getPath v (k # ks) = (case getProp v k of Inl e \<Rightarrow> Inl e | Inr w \<Rightarrow> getPath w ks)"

section \<open>Reading numbers from strings\<close>

text \<open>
  The white space that \<^verbatim>\<open>String.prototype.trim\<close>, \<^verbatim>\<open>parseInt\<close> and \<^verbatim>\<open>parseFloat\<close> skip, as far
  as it is a single byte: tab, line feed, vertical tab, form feed, carriage return, space.
\<close>

definition isStrWhiteSpaceChar :: "char \<Rightarrow> bool" where
  "isStrWhiteSpaceChar c \<longleftrightarrow>
     c = CHR 0x09 \<or> c = CHR 0x0A \<or> c = CHR 0x0B \<or> c = CHR 0x0C \<or> c = CHR 0x0D \<or> c = CHR '' ''"

definition trimStart :: "string \<Rightarrow> string" where
  "trimStart s = dropWhile isStrWhiteSpaceChar s"

definition trim :: "string \<Rightarrow> string" where
  "trim s = rev (trimStart (rev (trimStart s)))"

definition decDigit :: "char \<Rightarrow> bool" where
  "decDigit c \<longleftrightarrow> c \<in> set ''0123456789''"

definition hexDigit :: "char \<Rightarrow> bool" where
  "hexDigit c \<longleftrightarrow> c \<in> set ''0123456789abcdefABCDEF''"

definition digitVal :: "char \<Rightarrow> nat" where
  "digitVal c =
     (if decDigit c then of_char c - 48
      else if c \<in> set ''abcdef'' then of_char c - 87
      else of_char c - 55)"

definition digitsVal :: "nat \<Rightarrow> string \<Rightarrow> nat" where
  "digitsVal R ds = foldl (\<lambda>a c. R * a + digitVal c) 0 ds"

text \<open>
  \<^verbatim>\<open>parseInt(string)\<close> with no radix: skip leading white space, read a sign, switch to radix 16
  after \<^verbatim>\<open>0x\<close> or \<^verbatim>\<open>0X\<close>, read the longest run of digits; NaN when there is none.
\<close>

definition parseInt :: "string \<Rightarrow> jsnum" where
  "parseInt inputString =
     (let S = trimStart inputString;
          negative = (S \<noteq> [] \<and> hd S = CHR ''-'');
          S1 = (if S \<noteq> [] \<and> (hd S = CHR ''+'' \<or> hd S = CHR ''-'') then tl S else S);
          hex = (take 2 S1 = ''0x'' \<or> take 2 S1 = ''0X'');
          S2 = (if hex then drop 2 S1 else S1);
          Z = takeWhile (if hex then hexDigit else decDigit) S2;
          n = digitsVal (if hex then 16 else 10) Z
      in if Z = [] then NaN
         else Fin (if negative then - of_nat n else of_nat n))"

text \<open>
  \<^verbatim>\<open>parseFloat(string)\<close>: skip leading white space and read the longest prefix that is a
  \<^verbatim>\<open>StrDecimalLiteral\<close>: a sign, then \<^verbatim>\<open>Infinity\<close> or digits with an optional fraction and an
  optional exponent; NaN when no prefix is one.
\<close>

definition scanExponent :: "string \<Rightarrow> (int \<times> string) option" where
  "scanExponent s =
     (case s of
        [] \<Rightarrow> None
      | e # r \<Rightarrow>
          if e = CHR ''e'' \<or> e = CHR ''E'' then
            (let negative = (r \<noteq> [] \<and> hd r = CHR ''-'');
                 r1 = (if r \<noteq> [] \<and> (hd r = CHR ''+'' \<or> hd r = CHR ''-'') then tl r else r);
                 ds = takeWhile decDigit r1
             in if ds = [] then None
                else Some (if negative then - int (digitsVal 10 ds) else int (digitsVal 10 ds),
                           dropWhile decDigit r1))
          else None)"

definition scale10 :: "rat \<Rightarrow> int \<Rightarrow> rat" where
  "scale10 m e = (if 0 \<le> e then m * 10 ^ nat e else m / 10 ^ nat (- e))"

definition scanUnsignedDecimal :: "string \<Rightarrow> (jsnum \<times> string) option" where
  "scanUnsignedDecimal s =
     (if take 8 s = ''Infinity'' then Some (PosInf, drop 8 s)
      else
        (let ip = takeWhile decDigit s;
             r0 = dropWhile decDigit s;
             dot = (r0 \<noteq> [] \<and> hd r0 = CHR ''.'');
             fp = (if dot then takeWhile decDigit (tl r0) else []);
             r1 = (if dot then dropWhile decDigit (tl r0) else r0);
             m = of_nat (digitsVal 10 ip) + of_nat (digitsVal 10 fp) / 10 ^ length fp
         in if ip = [] \<and> fp = [] then None
            else (case scanExponent r1 of
                    None \<Rightarrow> Some (Fin m, r1)
                  | Some (e, r2) \<Rightarrow> Some (Fin (scale10 m e), r2))))"

definition scanDecimal :: "string \<Rightarrow> (jsnum \<times> string) option" where
  "scanDecimal s =
     (if s \<noteq> [] \<and> hd s = CHR ''-'' then map_option (\<lambda>(v, r). (js_neg v, r)) (scanUnsignedDecimal (tl s))
      else if s \<noteq> [] \<and> hd s = CHR ''+'' then scanUnsignedDecimal (tl s)
      else scanUnsignedDecimal s)"

definition parseFloat :: "string \<Rightarrow> jsnum" where
  "parseFloat inputString =
     (case scanDecimal (trimStart inputString) of None \<Rightarrow> NaN | Some (v, _) \<Rightarrow> v)"

section \<open>Scholarship rules\<close>

text \<open>
  \<^verbatim>\<open>loadRules\<close> folds the rows \<^verbatim>\<open>(rule_key, rule_value)\<close> of the table \<^verbatim>\<open>scholarship_rules\<close>
  into one object, a later row overwriting an earlier one with the same key. When the query
  fails the client returns \<^verbatim>\<open>data: null\<close> and \<^verbatim>\<open>rules.reduce\<close> raises a TypeError.
\<close>

type_synonym ruleset = "string \<rightharpoonup> string"

definition loadRules :: "(string \<times> string) list option \<Rightarrow> js_error + ruleset" where
  "loadRules data =
     (case data of
        None \<Rightarrow> Inl TypeError
      | Some rows \<Rightarrow> Inr (foldl (\<lambda>acc r. acc(fst r \<mapsto> snd r)) Map.empty rows))"

text \<open>\<^verbatim>\<open>rules.key || dflt\<close>: the default replaces a missing key and the empty string.\<close>

definition orDefault :: "string option \<Rightarrow> string \<Rightarrow> string" where
  "orDefault v dflt = (case v of None \<Rightarrow> dflt | Some s \<Rightarrow> if s = [] then dflt else s)"

section \<open>The mock evaluator\<close>

text \<open>
  Two conversions of a number to text are left to the JavaScript runtime and taken as
  parameters: \<^verbatim>\<open>Number.prototype.toLocaleString\<close>, which depends on the locale of the process,
  and the \<^verbatim>\<open>ToString\<close> of a template literal. They only shape the \<^verbatim>\<open>reason\<close> texts.
\<close>

record runtime =
  toLocaleString :: "jsnum \<Rightarrow> string"
  numToString :: "jsnum \<Rightarrow> string"

text \<open>The addition of two numbers, exact on the finite values the mock evaluator adds.\<close>

fun js_add :: "jsnum \<Rightarrow> jsnum \<Rightarrow> jsnum" where
  "js_add (Fin a) (Fin b) = Fin (a + b)"
| "js_add NaN _ = NaN"
| "js_add _ NaN = NaN"
| "js_add PosInf NegInf = NaN"
| "js_add NegInf PosInf = NaN"
| "js_add PosInf _ = PosInf"
| "js_add _ PosInf = PosInf"
| "js_add NegInf _ = NegInf"
| "js_add _ NegInf = NegInf"

text \<open>The UTF-8 bytes of the peso sign, of \<^verbatim>\<open>\<le>\<close> and of the warning sign of the notes.\<close>

definition peso :: string where
  "peso = [CHR 0xE2, CHR 0x82, CHR 0xB1]"

definition leqSign :: string where
  "leqSign = [CHR 0xE2, CHR 0x89, CHR 0xA4]"

definition warningSign :: string where
  "warningSign = [CHR 0xE2, CHR 0x9A, CHR 0xA0, CHR 0xEF, CHR 0xB8, CHR 0x8F]"

definition mockMotherIncome :: jsnum where
  "mockMotherIncome = Fin 12000"

definition mockFatherIncome :: jsnum where
  "mockFatherIncome = Fin 13000"

definition mockTotalIncome :: jsnum where
  "mockTotalIncome = js_add mockMotherIncome mockFatherIncome"

definition mockGWA :: jsnum where
  "mockGWA = Fin (5 / 2)"

text \<open>
  \<^verbatim>\<open>generateMockEvaluation(extractedText, rules)\<close>: a fixed applicant compared with the
  thresholds of the rule set.
\<close>

definition generateMockEvaluation :: "runtime \<Rightarrow> string \<Rightarrow> ruleset \<Rightarrow> jsval" where
  "generateMockEvaluation rt extractedText rules =
     (let maxIncome = parseInt (orDefault (rules ''max_monthly_income'') ''30000'');
          maxGWA = parseFloat (orDefault (rules ''max_gwa'') ''3.0'');
          incomePass = js_le mockTotalIncome maxIncome;
          gwaPass = js_le mockGWA maxGWA;
          qualified = (incomePass \<and> gwaPass)
      in JObj
        [(''qualified'', JBool qualified),
         (''extracted_data'', JObj
            [(''applicant_name'', JStr ''Test Applicant (Mock)''),
             (''mother_income'', JNum mockMotherIncome),
             (''father_income'', JNum mockFatherIncome),
             (''total_income'', JNum mockTotalIncome),
             (''gwa'', JNum mockGWA),
             (''enrollment_status'', JStr ''Currently Enrolled''),
             (''school'', JStr ''Mock University''),
             (''course'', JStr ''Computer Science'')]),
         (''evaluation'', JObj
            [(''income_check'', JObj
                [(''passed'', JBool incomePass),
                 (''mother_value_found'', JNum mockMotherIncome),
                 (''father_value_found'', JNum mockFatherIncome),
                 (''total_value_found'', JNum mockTotalIncome),
                 (''threshold'', JNum maxIncome),
                 (''income_verified'', JBool True),
                 (''reason'', JStr
                    (if incomePass
                     then ''Combined income '' @ peso @ toLocaleString rt mockTotalIncome
                          @ '' is below threshold '' @ peso @ toLocaleString rt maxIncome
                     else ''Combined income '' @ peso @ toLocaleString rt mockTotalIncome
                          @ '' exceeds threshold '' @ peso @ toLocaleString rt maxIncome))]),
             (''gwa_check'', JObj
                [(''passed'', JBool gwaPass),
                 (''value_found'', JNum mockGWA),
                 (''threshold'', JNum maxGWA),
                 (''reason'', JStr
                    (if gwaPass
                     then ''GWA '' @ numToString rt mockGWA @ '' meets requirement (''
                          @ leqSign @ numToString rt maxGWA @ '')''
                     else ''GWA '' @ numToString rt mockGWA @ '' does not meet requirement (>''
                          @ numToString rt maxGWA @ '')''))])]),
         (''disqualification_reasons'', JArr
            (if qualified then []
             else (if \<not> incomePass then [JStr ''Combined income exceeds limit''] else [])
                  @ (if \<not> gwaPass then [JStr ''GWA below requirement''] else []))),
         (''confidence_score'', JNum (Fin 95)),
         (''ocr_quality'', JStr ''good''),
         (''notes'', JStr (warningSign
            @ '' MOCK EVALUATION - This is simulated data for testing without OpenAI API''))])"

section \<open>\<^verbatim>\<open>JSON.parse\<close>\<close>

text \<open>
  The AI evaluator hands the text of the engine's reply to \<^verbatim>\<open>JSON.parse\<close>. The model follows
  the JSON grammar: a scanner cuts the text into tokens, a stack machine builds the value.
  A text that is not JSON gives no value (the SyntaxError of \<^verbatim>\<open>JSON.parse\<close>).
\<close>

datatype token =
    TLBrace | TRBrace | TLBrack | TRBrack | TColon | TComma
  | TString string | TNumber jsnum | TTrue | TFalse | TNull

definition isJsonWhiteSpace :: "char \<Rightarrow> bool" where
  "isJsonWhiteSpace c \<longleftrightarrow> c = CHR 0x09 \<or> c = CHR 0x0A \<or> c = CHR 0x0D \<or> c = CHR '' ''"

text \<open>A \<^verbatim>\<open>\uXXXX\<close> escape names one UTF-16 code unit, stored as its UTF-8 bytes.\<close>

definition utf8 :: "nat \<Rightarrow> string" where
  "utf8 cp =
     (if cp < 0x80 then [char_of cp]
      else if cp < 0x800 then [char_of (0xC0 + cp div 64), char_of (0x80 + cp mod 64)]
      else [char_of (0xE0 + cp div 4096), char_of (0x80 + (cp div 64) mod 64),
            char_of (0x80 + cp mod 64)])"

definition unescape :: "char \<Rightarrow> char option" where
  "unescape e =
     (if e = CHR 0x22 \<or> e = CHR 0x5C \<or> e = CHR ''/'' then Some e
      else if e = CHR ''b'' then Some (CHR 0x08)
      else if e = CHR ''f'' then Some (CHR 0x0C)
      else if e = CHR ''n'' then Some (CHR 0x0A)
      else if e = CHR ''r'' then Some (CHR 0x0D)
      else if e = CHR ''t'' then Some (CHR 0x09)
      else None)"

text \<open>The characters of a string literal after its opening quote, and the text after it.\<close>

fun scanJsonString :: "string \<Rightarrow> (string \<times> string) option" where
  "scanJsonString [] = None"
| "scanJsonString (c # cs) =
     (if c = CHR 0x22 then Some ([], cs)
      else if c = CHR 0x5C then
        (case cs of
           [] \<Rightarrow> None
         | e # r \<Rightarrow>
             if e = CHR ''u'' then
               (if 4 \<le> length r \<and> list_all hexDigit (take 4 r)
                then map_option (\<lambda>(s, r'). (utf8 (digitsVal 16 (take 4 r)) @ s, r'))
                       (scanJsonString (drop 4 r))
                else None)
             else (case unescape e of
                     None \<Rightarrow> None
                   | Some ch \<Rightarrow> map_option (\<lambda>(s, r'). (ch # s, r')) (scanJsonString r)))
      else if (of_char c :: nat) < 0x20 then None
      else map_option (\<lambda>(s, r'). (c # s, r')) (scanJsonString cs))"

text \<open>
  A JSON number: an optional minus, \<^verbatim>\<open>0\<close> or digits that do not start with \<^verbatim>\<open>0\<close>, an optional
  fraction with at least one digit, an optional exponent.
\<close>

definition scanJsonNumber :: "string \<Rightarrow> (jsnum \<times> string) option" where
  "scanJsonNumber s =
     (let negative = (s \<noteq> [] \<and> hd s = CHR ''-'');
          s1 = (if negative then tl s else s)
      in case s1 of
           [] \<Rightarrow> None
         | d # r \<Rightarrow>
             if \<not> decDigit d then None
             else
               (let ip = (if d = CHR ''0'' then [d] else d # takeWhile decDigit r);
                    r0 = (if d = CHR ''0'' then r else dropWhile decDigit r);
                    dot = (r0 \<noteq> [] \<and> hd r0 = CHR ''.'');
                    fp = (if dot then takeWhile decDigit (tl r0) else []);
                    r1 = (if dot then dropWhile decDigit (tl r0) else r0);
                    m = of_nat (digitsVal 10 ip) + of_nat (digitsVal 10 fp) / 10 ^ length fp
                in if dot \<and> fp = [] then None
                   else if r1 \<noteq> [] \<and> (hd r1 = CHR ''e'' \<or> hd r1 = CHR ''E'') then
                     (case scanExponent r1 of
                        None \<Rightarrow> None
                      | Some (e, r2) \<Rightarrow>
                          Some (Fin (if negative then - scale10 m e else scale10 m e), r2))
                   else Some (Fin (if negative then - m else m), r1)))"

lemma scanExponent_shorter: "scanExponent s = Some (e, r) \<Longrightarrow> length r < length s"
proof -
  assume a: "scanExponent s = Some (e, r)"
  have drop_le: "length (dropWhile decDigit t) \<le> length t" for t
    by (rule length_dropWhile_le)
  from a show ?thesis
  proof (cases s)
    case Nil
    with a show ?thesis by (simp add: scanExponent_def)
  next
    case (Cons c t)
    have "length (dropWhile decDigit (tl t)) \<le> length t"
      using drop_le [of "tl t"] by (cases t) simp_all
    with a Cons drop_le [of t] show ?thesis
      by (auto simp: scanExponent_def Let_def split: if_splits)
  qed
qed

lemma scanJsonString_shorter: "scanJsonString s = Some (x, r) \<Longrightarrow> length r < length s"
proof (induction s arbitrary: x r rule: scanJsonString.induct)
  case 1
  then show ?case by simp
next
  case (2 c cs)
  show ?case
  proof (cases "c = CHR 0x22")
    case True
    with "2.prems" show ?thesis by simp
  next
    case quote: False
    show ?thesis
    proof (cases "c = CHR 0x5C")
      case False
      with quote "2.prems" "2.IH"(3) show ?thesis
        by (fastforce split: if_splits)
    next
      case True
      with quote "2.prems" obtain e t where cs: "cs = e # t"
        by (cases cs) auto
      show ?thesis
      proof (cases "e = CHR ''u''")
        case True
        with quote \<open>c = CHR 0x5C\<close> cs "2.prems" "2.IH"(1) show ?thesis
          by (fastforce split: if_splits)
      next
        case False
        with quote \<open>c = CHR 0x5C\<close> cs "2.prems" "2.IH"(2) show ?thesis
          by (fastforce split: if_splits option.splits)
      qed
    qed
  qed
qed

lemma scanJsonNumber_shorter: "scanJsonNumber s = Some (v, r) \<Longrightarrow> length r < length s"
proof -
  assume a: "scanJsonNumber s = Some (v, r)"
  have drop_le: "length (dropWhile decDigit t) \<le> length t" for t
    by (rule length_dropWhile_le)
  have drop_tl: "length (dropWhile decDigit (tl t)) \<le> length t" for t
    using drop_le [of "tl t"] by (cases t) simp_all
  define s1 where "s1 = (if s \<noteq> [] \<and> hd s = CHR ''-'' then tl s else s)"
  have s1_le: "length s1 \<le> length s"
    by (simp add: s1_def)
  from a obtain d t where s1: "s1 = d # t"
    by (cases s1) (auto simp: scanJsonNumber_def Let_def s1_def)
  have "length r \<le> length t"
    using a s1 drop_le [of t] drop_tl [of t] drop_tl [of "dropWhile decDigit t"]
    by (auto simp: scanJsonNumber_def Let_def s1_def [symmetric]
             split: if_splits option.splits dest!: scanExponent_shorter)
  with s1 s1_le show ?thesis by simp
qed

function lexJson :: "string \<Rightarrow> token list option" where
  "lexJson [] = Some []"
| "lexJson (c # cs) =
     (if isJsonWhiteSpace c then lexJson cs
      else if c = CHR ''{'' then map_option (Cons TLBrace) (lexJson cs)
      else if c = CHR ''}'' then map_option (Cons TRBrace) (lexJson cs)
      else if c = CHR ''['' then map_option (Cons TLBrack) (lexJson cs)
      else if c = CHR '']'' then map_option (Cons TRBrack) (lexJson cs)
      else if c = CHR '':'' then map_option (Cons TColon) (lexJson cs)
      else if c = CHR '','' then map_option (Cons TComma) (lexJson cs)
      else if c = CHR 0x22 then
        (case scanJsonString cs of
           None \<Rightarrow> None
         | Some (x, r) \<Rightarrow> map_option (Cons (TString x)) (lexJson r))
      else if c = CHR ''-'' \<or> decDigit c then
        (case scanJsonNumber (c # cs) of
           None \<Rightarrow> None
         | Some (v, r) \<Rightarrow> map_option (Cons (TNumber v)) (lexJson r))
      else if take 4 (c # cs) = ''true'' then map_option (Cons TTrue) (lexJson (drop 3 cs))
      else if take 5 (c # cs) = ''false'' then map_option (Cons TFalse) (lexJson (drop 4 cs))
      else if take 4 (c # cs) = ''null'' then map_option (Cons TNull) (lexJson (drop 3 cs))
      else None)"
  by pat_completeness auto
termination
proof (relation "measure length", goal_cases)
  case (9 c cs x2 x y)
  then have "scanJsonString cs = Some (x, y)" by (simp (no_asm_simp))
  then show ?case by (simp (no_asm_simp) add: scanJsonString_shorter less_SucI)
next
  case (10 c cs x2 x y)
  then have "scanJsonNumber (c # cs) = Some (x, y)" by (simp (no_asm_simp))
  from scanJsonNumber_shorter [OF this] show ?case by simp
qed (simp_all (no_asm))

text \<open>
  The stack machine. A frame is a container under construction: the elements of an array
  read so far, or the members of an object read so far together with the key whose value
  is awaited. Both lists are kept newest first.
\<close>

datatype frame = ArrF "jsval list" | ObjF "(string \<times> jsval) list" "string option"

datatype expect = XValue | XValueOrClose | XKey | XKeyOrClose | XColon | XCommaOrClose | XEnd jsval

text \<open>A finished value goes into the innermost open container, or is the result.\<close>

fun put :: "jsval \<Rightarrow> frame list \<Rightarrow> (frame list \<times> expect) option" where
  "put v [] = Some ([], XEnd v)"
| "put v (ArrF xs # st) = Some (ArrF (v # xs) # st, XCommaOrClose)"
| "put v (ObjF kvs (Some k) # st) = Some (ObjF ((k, v) # kvs) None # st, XCommaOrClose)"
| "put v (ObjF kvs None # st) = None"

fun startValue :: "frame list \<Rightarrow> token \<Rightarrow> (frame list \<times> expect) option" where
  "startValue st (TString x) = put (JStr x) st"
| "startValue st (TNumber n) = put (JNum n) st"
| "startValue st TTrue = put (JBool True) st"
| "startValue st TFalse = put (JBool False) st"
| "startValue st TNull = put JNull st"
| "startValue st TLBrack = Some (ArrF [] # st, XValueOrClose)"
| "startValue st TLBrace = Some (ObjF [] None # st, XKeyOrClose)"
| "startValue st _ = None"

fun closeFrame :: "frame list \<Rightarrow> token \<Rightarrow> (frame list \<times> expect) option" where
  "closeFrame (ArrF xs # st) TRBrack = put (JArr (rev xs)) st"
| "closeFrame (ObjF kvs None # st) TRBrace = put (JObj (rev kvs)) st"
| "closeFrame _ _ = None"

fun readKey :: "frame list \<Rightarrow> token \<Rightarrow> (frame list \<times> expect) option" where
  "readKey (ObjF kvs None # st) (TString k) = Some (ObjF kvs (Some k) # st, XColon)"
| "readKey _ _ = None"

fun parseStep :: "frame list \<Rightarrow> expect \<Rightarrow> token \<Rightarrow> (frame list \<times> expect) option" where
  "parseStep st XValue t = startValue st t"
| "parseStep st XValueOrClose t = (if t = TRBrack then closeFrame st t else startValue st t)"
| "parseStep st XKey t = readKey st t"
| "parseStep st XKeyOrClose t = (if t = TRBrace then closeFrame st t else readKey st t)"
| "parseStep st XColon t = (if t = TColon then Some (st, XValue) else None)"
| "parseStep st XCommaOrClose t =
     (if t = TComma then
        (case st of
           ArrF _ # _ \<Rightarrow> Some (st, XValue)
         | ObjF _ _ # _ \<Rightarrow> Some (st, XKey)
         | [] \<Rightarrow> None)
      else closeFrame st t)"
| "parseStep st (XEnd v) t = None"

fun parseTokens :: "frame list \<Rightarrow> expect \<Rightarrow> token list \<Rightarrow> jsval option" where
  "parseTokens st x [] = (case (st, x) of ([], XEnd v) \<Rightarrow> Some v | _ \<Rightarrow> None)"
| "parseTokens st x (t # ts) =
     (case parseStep st x t of None \<Rightarrow> None | Some (st', x') \<Rightarrow> parseTokens st' x' ts)"

definition JSON_parse :: "string \<Rightarrow> js_error + jsval" where
  "JSON_parse text =
     (case lexJson text of
        None \<Rightarrow> Inl SyntaxError
      | Some ts \<Rightarrow>
          (case parseTokens [] XValue ts of None \<Rightarrow> Inl SyntaxError | Some v \<Rightarrow> Inr v))"

section \<open>Coercions\<close>

text \<open>
  \<^verbatim>\<open>Number(string)\<close>: the whole trimmed string must be a numeric literal; the empty string
  is 0, and a hexadecimal, octal or binary literal carries no sign.
\<close>

definition radixLiteral :: "nat \<Rightarrow> string \<Rightarrow> string \<Rightarrow> jsnum" where
  "radixLiteral R digits ds =
     (if ds \<noteq> [] \<and> list_all (\<lambda>c. c \<in> set digits) ds then Fin (of_nat (digitsVal R ds)) else NaN)"

definition StringToNumber :: "string \<Rightarrow> jsnum" where
  "StringToNumber s =
     (let t = trim s
      in if t = [] then Fin 0
         else if take 2 t = ''0x'' \<or> take 2 t = ''0X'' then
           radixLiteral 16 ''0123456789abcdefABCDEF'' (drop 2 t)
         else if take 2 t = ''0o'' \<or> take 2 t = ''0O'' then radixLiteral 8 ''01234567'' (drop 2 t)
         else if take 2 t = ''0b'' \<or> take 2 t = ''0B'' then radixLiteral 2 ''01'' (drop 2 t)
         else (case scanDecimal t of
                 None \<Rightarrow> NaN
               | Some (v, rest) \<Rightarrow> if rest = [] then v else NaN))"

text \<open>
  Turning a value into a string calls the \<^verbatim>\<open>toString\<close> of an object. A value read from JSON
  holds no function, so an object with an own property \<^verbatim>\<open>toString\<close> has no usable conversion
  and raises a TypeError; an array does so when one of its elements does.
\<close>

fun stringifyThrows :: "jsval \<Rightarrow> bool" where
  "stringifyThrows (JObj kvs) = (map_of kvs ''toString'' \<noteq> None)"
| "stringifyThrows (JArr xs) = list_ex stringifyThrows xs"
| "stringifyThrows _ = False"

text \<open>
  The number read back from the string of an array element: \<^verbatim>\<open>null\<close> prints as the empty
  string, a number prints as a text that reads back as the same number, an object prints
  as \<^verbatim>\<open>[object Object]\<close>, and an array with two or more elements prints with a comma.
\<close>

fun joinedNumber :: "jsval \<Rightarrow> jsnum" where
  "joinedNumber JUndefined = Fin 0"
| "joinedNumber JNull = Fin 0"
| "joinedNumber (JBool b) = NaN"
| "joinedNumber (JNum n) = n"
| "joinedNumber (JStr s) = StringToNumber s"
| "joinedNumber (JObj kvs) = NaN"
| "joinedNumber (JArr []) = Fin 0"
| "joinedNumber (JArr [x]) = joinedNumber x"
| "joinedNumber (JArr (x # y # zs)) = NaN"

text \<open>\<^verbatim>\<open>ToNumber\<close>, as the operator \<^verbatim>\<open><\<close> applies it to an operand compared with a number.\<close>

fun ToNumber :: "jsval \<Rightarrow> js_error + jsnum" where
  "ToNumber JUndefined = Inr NaN"
| "ToNumber JNull = Inr (Fin 0)"
| "ToNumber (JBool b) = Inr (Fin (if b then 1 else 0))"
| "ToNumber (JNum n) = Inr n"
| "ToNumber (JStr s) = Inr (StringToNumber s)"
| "ToNumber (JObj kvs) = (if stringifyThrows (JObj kvs) then Inl TypeError else Inr NaN)"
| "ToNumber (JArr xs) =
     (if stringifyThrows (JArr xs) then Inl TypeError else Inr (joinedNumber (JArr xs)))"

text \<open>\<^verbatim>\<open>ToBoolean\<close>, as the conditional operator applies it.\<close>

fun ToBoolean :: "jsval \<Rightarrow> bool" where
  "ToBoolean JUndefined = False"
| "ToBoolean JNull = False"
| "ToBoolean (JBool b) = b"
| "ToBoolean (JNum n) = (n \<noteq> NaN \<and> n \<noteq> Fin 0)"
| "ToBoolean (JStr s) = (s \<noteq> [])"
| "ToBoolean (JArr xs) = True"
| "ToBoolean (JObj kvs) = True"

section \<open>Text extraction\<close>

text \<open>
  The services the process talks to. Each field is the outcome of one external call, so a
  statement about every value of the record is a statement about every behaviour of the
  file parser, the OCR engine, the rule table, the reasoning engine, the object store and
  the database. The prompt sent to the reasoning engine is text built from the rules and
  the extracted texts; the engine may answer it with any text, so the reply is taken as it
  comes and the prompt is not modelled.
\<close>

record application_row =
  row_user_id :: string
  row_mother_certificate_url :: string
  row_father_certificate_url :: string
  row_report_card_url :: string
  row_mother_income :: jsnum
  row_father_income :: jsnum
  row_extracted_text :: string
  row_evaluation_result :: jsval
  row_qualified :: jsval
  row_confidence_score :: jsval
  row_status :: string

record services =
  USE_MOCK_EVALUATION :: "string option"
  GROQ_API_KEY :: "string option"
  rt :: runtime
  now :: nat
  pdfParse :: "string \<Rightarrow> js_error + string"
  recognize :: "string option \<Rightarrow> string \<Rightarrow> js_error + string"
  ruleRows :: "(string \<times> string) list option"
  chatCompletion :: "js_error + string"
  storageUpload :: "string \<Rightarrow> string \<Rightarrow> string \<Rightarrow> js_error option"
  dbInsert :: "application_row \<Rightarrow> js_error + jsval"

text \<open>The calls \<^verbatim>\<open>extractText\<close> makes, in the order it makes them.\<close>

datatype call =
    ReadFileSync "string option"
  | PdfParse string
  | TesseractRecognize "string option" string

text \<open>
  The upload directory maps the path of a transient file to its content. \<^verbatim>\<open>readFileSync\<close>
  raises when the path is \<^verbatim>\<open>null\<close> or names no file.
\<close>

type_synonym filesystem = "string \<rightharpoonup> string"

definition readFileSync :: "filesystem \<Rightarrow> string option \<Rightarrow> js_error + string" where
  "readFileSync fs p =
     (case p of
        None \<Rightarrow> Inl TypeError
      | Some f \<Rightarrow> (case fs f of None \<Rightarrow> Inl (IOError ''ENOENT'') | Some content \<Rightarrow> Inr content))"

text \<open>
  \<^verbatim>\<open>extractText(imagePath, mimetype)\<close>; either argument may be \<^verbatim>\<open>null\<close>. The result pairs the
  calls made with the trimmed text or the error raised.
\<close>

definition extractText ::
  "services \<Rightarrow> filesystem \<Rightarrow> string option \<Rightarrow> string option \<Rightarrow> call list \<times> (js_error + string)"
where
  "extractText sv fs imagePath mimetype =
     (if mimetype = Some ''text/plain'' then
        ([ReadFileSync imagePath],
         case readFileSync fs imagePath of Inl e \<Rightarrow> Inl e | Inr text \<Rightarrow> Inr (trim text))
      else if mimetype = Some ''application/pdf'' then
        (case readFileSync fs imagePath of
           Inl e \<Rightarrow> ([ReadFileSync imagePath], Inl e)
         | Inr dataBuffer \<Rightarrow>
             ([ReadFileSync imagePath, PdfParse dataBuffer],
              case pdfParse sv dataBuffer of Inl e \<Rightarrow> Inl e | Inr text \<Rightarrow> Inr (trim text)))
      else
        ([TesseractRecognize imagePath ''eng''],
         case recognize sv imagePath ''eng'' of Inl e \<Rightarrow> Inl e | Inr text \<Rightarrow> Inr (trim text)))"

section \<open>The AI evaluator and \<^verbatim>\<open>processApplication\<close>\<close>

definition USE_MOCK_MODE :: "services \<Rightarrow> bool" where
  "USE_MOCK_MODE sv \<longleftrightarrow> USE_MOCK_EVALUATION sv = Some ''true''"

text \<open>Whether the module built a client: \<^verbatim>\<open>groq\<close> is \<^verbatim>\<open>null\<close> in mock mode and without a key.\<close>

definition groq :: "services \<Rightarrow> bool" where
  "groq sv \<longleftrightarrow>
     (if USE_MOCK_MODE sv \<or> GROQ_API_KEY sv = None \<or> GROQ_API_KEY sv = Some [] then False else True)"

record incomeVerification =
  motherIncome :: jsnum
  fatherIncome :: jsnum
  motherText :: string
  fatherText :: string
  reportText :: string
  combinedText :: string

text \<open>
  \<^verbatim>\<open>evaluateWithAI(extractedText, rules, incomeVerification)\<close>: the mock result in mock mode;
  otherwise a TypeError when there is no client, the error of the call when it fails, and
  else whatever \<^verbatim>\<open>JSON.parse\<close> makes of the reply.
\<close>

definition evaluateWithAI ::
  "services \<Rightarrow> string \<Rightarrow> ruleset \<Rightarrow> incomeVerification option \<Rightarrow> js_error + jsval"
where
  "evaluateWithAI sv extractedText rules iv =
     (if USE_MOCK_MODE sv then Inr (generateMockEvaluation (rt sv) extractedText rules)
      else if \<not> groq sv then Inl TypeError
      else (case chatCompletion sv of
              Inl e \<Rightarrow> Inl e
            | Inr content \<Rightarrow> JSON_parse content))"

text \<open>The object \<^verbatim>\<open>processApplication\<close> returns: each mode fills the properties it has.\<close>

record processed =
  extractedText :: "string option"
  evaluation :: "jsval option"

definition processApplication ::
  "services \<Rightarrow> filesystem \<Rightarrow> string option \<Rightarrow> string option \<Rightarrow> incomeVerification option \<Rightarrow> bool
     \<Rightarrow> js_error + processed"
where
  "processApplication sv fs imagePath mimetype iv extractOnly =
     (if extractOnly \<and> imagePath \<noteq> None \<and> imagePath \<noteq> Some [] then
        (case snd (extractText sv fs imagePath mimetype) of
           Inl e \<Rightarrow> Inl e
         | Inr text \<Rightarrow> Inr \<lparr>extractedText = Some text, evaluation = None\<rparr>)
      else
        (case iv of
           Some v \<Rightarrow>
             (case loadRules (ruleRows sv) of
                Inl e \<Rightarrow> Inl e
              | Inr rules \<Rightarrow>
                  (case evaluateWithAI sv
                          (if combinedText v \<noteq> [] then combinedText v else reportText v) rules iv of
                     Inl e \<Rightarrow> Inl e
                   | Inr ev \<Rightarrow> Inr \<lparr>extractedText = None, evaluation = Some ev\<rparr>))
         | None \<Rightarrow>
             (case snd (extractText sv fs imagePath mimetype) of
                Inl e \<Rightarrow> Inl e
              | Inr text \<Rightarrow>
                  (case loadRules (ruleRows sv) of
                     Inl e \<Rightarrow> Inl e
                   | Inr rules \<Rightarrow>
                       (case evaluateWithAI sv text rules None of
                          Inl e \<Rightarrow> Inl e
                        | Inr ev \<Rightarrow> Inr \<lparr>extractedText = Some text, evaluation = Some ev\<rparr>)))))"

section \<open>The route \<^verbatim>\<open>POST /api/applications/submit\<close>\<close>

text \<open>
  The upload middleware has stored each received document as a transient file before the
  handler runs; a field of the form that came without a file is absent from \<^verbatim>\<open>req.files\<close>.
\<close>

record upload_file =
  file_path :: string
  file_mimetype :: string
  file_originalname :: string

record request =
  req_user_id :: string
  mother_certificate :: "upload_file option"
  father_certificate :: "upload_file option"
  report_card :: "upload_file option"
  mother_income :: "string option"
  father_income :: "string option"

text \<open>
  What the handler can change: the transient files, the calls made to the object store
  (path, content, content type; oldest first) and the rows inserted in \<^verbatim>\<open>applications\<close>.
\<close>

record world =
  files :: filesystem
  uploads :: "(string \<times> string \<times> string) list"
  rows :: "application_row list"

text \<open>
  The three answers of the handler: \<^verbatim>\<open>{success: true, application}\<close>, status 400 with a
  message, and status 500 for the error caught.
\<close>

datatype response = Success jsval | BadRequest string | ServerError js_error

text \<open>The status written to the row (lines 106 to 108 of the route).\<close>

definition deriveStatus :: "jsval \<Rightarrow> js_error + string" where
  "deriveStatus ev =
     (case getProp ev ''confidence_score'' of
        Inl e \<Rightarrow> Inl e
      | Inr c \<Rightarrow>
          (case ToNumber c of
             Inl e \<Rightarrow> Inl e
           | Inr n \<Rightarrow>
               if js_lt n (Fin 60) then Inr ''manual_review''
               else (case getProp ev ''qualified'' of
                       Inl e \<Rightarrow> Inl e
                     | Inr q \<Rightarrow> Inr (if ToBoolean q then ''qualified'' else ''disqualified''))))"

text \<open>The template literal that joins the three extracted texts (line 88 of the route).\<close>

definition buildCombinedText :: "string \<Rightarrow> string \<Rightarrow> string \<Rightarrow> string" where
  "buildCombinedText mText fText rText =
     ''Mother's Income Certificate:\<newline>'' @ mText
     @ ''\<newline>\<newline>Father's Income Certificate:\<newline>'' @ fText
     @ ''\<newline>\<newline>Report Card:\<newline>'' @ rText"

text \<open>A property that is \<^verbatim>\<open>undefined\<close> prints as that word inside a template literal.\<close>

definition textOf :: "string option \<Rightarrow> string" where
  "textOf t = (case t of None \<Rightarrow> ''undefined'' | Some x \<Rightarrow> x)"

definition falsy :: "string option \<Rightarrow> bool" where
  "falsy v \<longleftrightarrow> (case v of None \<Rightarrow> True | Some x \<Rightarrow> x = [])"

text \<open>
  The body of the \<^verbatim>\<open>try\<close> block follows, in the four steps its comments number. Step 1
  reads each transient file and uploads it to the object store, the mother's certificate
  first; it stops at the first error. It returns the three storage paths.
\<close>

definition uploadDocuments ::
  "services \<Rightarrow> request \<Rightarrow> upload_file \<Rightarrow> upload_file \<Rightarrow> upload_file \<Rightarrow> world
     \<Rightarrow> (js_error + string \<times> string \<times> string) \<times> world"
where
  "uploadDocuments sv req motherFile fatherFile reportFile w0 =
     (let timestamp = numToString (rt sv) (Fin (of_nat (now sv)))
      in case readFileSync (files w0) (Some (file_path motherFile)) of
        Inl e \<Rightarrow> (Inl e, w0)
      | Inr motherBuffer \<Rightarrow>
     (let motherPath = ''documents/'' @ req_user_id req @ ''/mother_income_'' @ timestamp @ ''_''
                       @ file_originalname motherFile;
          motherContentType = (if file_mimetype motherFile = ''text/plain'' then ''application/pdf''
                               else file_mimetype motherFile);
          w1 = w0\<lparr>uploads := uploads w0 @ [(motherPath, motherBuffer, motherContentType)]\<rparr>
      in case storageUpload sv motherPath motherBuffer motherContentType of
        Some motherUploadError \<Rightarrow> (Inl motherUploadError, w1)
      | None \<Rightarrow>
     (case readFileSync (files w1) (Some (file_path fatherFile)) of
        Inl e \<Rightarrow> (Inl e, w1)
      | Inr fatherBuffer \<Rightarrow>
     (let fatherPath = ''documents/'' @ req_user_id req @ ''/father_income_'' @ timestamp @ ''_''
                       @ file_originalname fatherFile;
          fatherContentType = (if file_mimetype fatherFile = ''text/plain'' then ''application/pdf''
                               else file_mimetype fatherFile);
          w2 = w1\<lparr>uploads := uploads w1 @ [(fatherPath, fatherBuffer, fatherContentType)]\<rparr>
      in case storageUpload sv fatherPath fatherBuffer fatherContentType of
        Some fatherUploadError \<Rightarrow> (Inl fatherUploadError, w2)
      | None \<Rightarrow>
     (case readFileSync (files w2) (Some (file_path reportFile)) of
        Inl e \<Rightarrow> (Inl e, w2)
      | Inr reportBuffer \<Rightarrow>
     (let reportPath = ''documents/'' @ req_user_id req @ ''/report_'' @ timestamp @ ''_''
                       @ file_originalname reportFile;
          reportContentType = (if file_mimetype reportFile = ''text/plain'' then ''application/pdf''
                               else file_mimetype reportFile);
          w3 = w2\<lparr>uploads := uploads w2 @ [(reportPath, reportBuffer, reportContentType)]\<rparr>
      in case storageUpload sv reportPath reportBuffer reportContentType of
        Some reportUploadError \<Rightarrow> (Inl reportUploadError, w3)
      | None \<Rightarrow> (Inr (motherPath, fatherPath, reportPath), w3)))))))"

text \<open>
  Step 2 extracts the three texts. The three calls are started together and awaited
  together; the model reports the first failure in the order mother, father, report.
\<close>

definition extractDocuments ::
  "services \<Rightarrow> filesystem \<Rightarrow> upload_file \<Rightarrow> upload_file \<Rightarrow> upload_file
     \<Rightarrow> js_error + string \<times> string \<times> string"
where
  "extractDocuments sv fs motherFile fatherFile reportFile =
     (let e1 = processApplication sv fs (Some (file_path motherFile))
                 (Some (file_mimetype motherFile)) None True;
          e2 = processApplication sv fs (Some (file_path fatherFile))
                 (Some (file_mimetype fatherFile)) None True;
          e3 = processApplication sv fs (Some (file_path reportFile))
                 (Some (file_mimetype reportFile)) None True
      in case e1 of Inl e \<Rightarrow> Inl e | Inr p1 \<Rightarrow>
        (case e2 of Inl e \<Rightarrow> Inl e | Inr p2 \<Rightarrow>
        (case e3 of Inl e \<Rightarrow> Inl e | Inr p3 \<Rightarrow>
           Inr (textOf (extractedText p1), textOf (extractedText p2), textOf (extractedText p3)))))"

text \<open>
  Step 3 joins the texts and asks for one evaluation; the last step derives the status and
  inserts the row. Both return the row to insert or the error raised.
\<close>

definition evaluateDocuments ::
  "services \<Rightarrow> request \<Rightarrow> filesystem \<Rightarrow> jsnum \<Rightarrow> jsnum \<Rightarrow> string \<times> string \<times> string
     \<Rightarrow> string \<times> string \<times> string \<Rightarrow> js_error + application_row"
where
  "evaluateDocuments sv req fs mIncome fIncome paths texts =
     (case (paths, texts) of ((motherPath, fatherPath, reportPath), (mText, fText, rText)) \<Rightarrow>
     (let combined = buildCombinedText mText fText rText
      in case processApplication sv fs None None
                (Some \<lparr>motherIncome = mIncome, fatherIncome = fIncome, motherText = mText,
                        fatherText = fText, reportText = rText, combinedText = combined\<rparr>)
                False of
        Inl e \<Rightarrow> Inl e
      | Inr p \<Rightarrow>
     (let ev = (case evaluation p of None \<Rightarrow> JUndefined | Some v \<Rightarrow> v)
      in case deriveStatus ev of
        Inl e \<Rightarrow> Inl e
      | Inr status \<Rightarrow>
     (case getProp ev ''qualified'' of
        Inl e \<Rightarrow> Inl e
      | Inr q \<Rightarrow>
     (case getProp ev ''confidence_score'' of
        Inl e \<Rightarrow> Inl e
      | Inr c \<Rightarrow>
          Inr \<lparr>row_user_id = req_user_id req,
               row_mother_certificate_url = motherPath,
               row_father_certificate_url = fatherPath,
               row_report_card_url = reportPath,
               row_mother_income = mIncome,
               row_father_income = fIncome,
               row_extracted_text = combined,
               row_evaluation_result = ev,
               row_qualified = q,
               row_confidence_score = c,
               row_status = status\<rparr>)))))"

definition submitTry ::
  "services \<Rightarrow> request \<Rightarrow> upload_file \<Rightarrow> upload_file \<Rightarrow> upload_file \<Rightarrow> jsnum \<Rightarrow> jsnum \<Rightarrow> world
     \<Rightarrow> (js_error + jsval) \<times> world"
where
  "submitTry sv req motherFile fatherFile reportFile mIncome fIncome w0 =
     (case uploadDocuments sv req motherFile fatherFile reportFile w0 of
        (Inl e, w3) \<Rightarrow> (Inl e, w3)
      | (Inr paths, w3) \<Rightarrow>
     (case extractDocuments sv (files w3) motherFile fatherFile reportFile of
        Inl e \<Rightarrow> (Inl e, w3)
      | Inr texts \<Rightarrow>
     (case evaluateDocuments sv req (files w3) mIncome fIncome paths texts of
        Inl e \<Rightarrow> (Inl e, w3)
      | Inr row \<Rightarrow>
     (case dbInsert sv row of
        Inl dbError \<Rightarrow> (Inl dbError, w3)
      | Inr application \<Rightarrow> (Inr application, w3\<lparr>rows := rows w3 @ [row]\<rparr>)))))"

text \<open>The \<^verbatim>\<open>finally\<close> block removes a transient file when it still exists.\<close>

definition unlinkIfExists :: "string \<Rightarrow> world \<Rightarrow> world" where
  "unlinkIfExists p w = (if files w p \<noteq> None then w\<lparr>files := (files w)(p := None)\<rparr> else w)"

text \<open>
  The handler. The two checks of the request return before the \<^verbatim>\<open>try\<close> statement is entered,
  so neither its \<^verbatim>\<open>catch\<close> nor its \<^verbatim>\<open>finally\<close> block runs for them.
\<close>

definition submit :: "services \<Rightarrow> request \<Rightarrow> world \<Rightarrow> response \<times> world" where
  "submit sv req w =
     (case (mother_certificate req, father_certificate req, report_card req) of
        (Some motherFile, Some fatherFile, Some reportFile) \<Rightarrow>
          if falsy (mother_income req) \<or> falsy (father_income req)
          then (BadRequest ''Both parent income values are required'', w)
          else
            (let mIncome = parseFloat (textOf (mother_income req));
                 fIncome = parseFloat (textOf (father_income req));
                 (outcome, w') = submitTry sv req motherFile fatherFile reportFile mIncome fIncome w;
                 res = (case outcome of Inl err \<Rightarrow> ServerError err | Inr application \<Rightarrow> Success application)
             in (res,
                 unlinkIfExists (file_path reportFile)
                   (unlinkIfExists (file_path fatherFile)
                      (unlinkIfExists (file_path motherFile) w'))))
      | _ \<Rightarrow>
          (BadRequest
             (''All three documents are required ''
              @ ''(mother certificate, father certificate, and report card)''), w))"

section \<open>The shape of an evaluation result\<close>

text \<open>
  The prompt of the AI evaluator spells out the JSON object the engine is asked for (lines 328
  to 361 of the service); the mock evaluator builds an object of the same shape. The
  predicates below say when a value has that shape. They are used to state properties; the
  program itself holds no such check.
\<close>

definition isBoolean :: "jsval \<Rightarrow> bool" where
  "isBoolean v = (case v of JBool _ \<Rightarrow> True | _ \<Rightarrow> False)"

definition isString :: "jsval \<Rightarrow> bool" where
  "isString v = (case v of JStr _ \<Rightarrow> True | _ \<Rightarrow> False)"

definition isStringOrNull :: "jsval \<Rightarrow> bool" where
  "isStringOrNull v = (case v of JStr _ \<Rightarrow> True | JNull \<Rightarrow> True | _ \<Rightarrow> False)"

definition isNumber :: "jsval \<Rightarrow> bool" where
  "isNumber v = (case v of JNum (Fin _) \<Rightarrow> True | _ \<Rightarrow> False)"

definition isNumberOrNull :: "jsval \<Rightarrow> bool" where
  "isNumberOrNull v = (case v of JNum (Fin _) \<Rightarrow> True | JNull \<Rightarrow> True | _ \<Rightarrow> False)"

definition isStringArray :: "jsval \<Rightarrow> bool" where
  "isStringArray v = (case v of JArr xs \<Rightarrow> list_all isString xs | _ \<Rightarrow> False)"

text \<open>A confidence score: an integer from 0 to 100.\<close>

definition validConfidence :: "jsval \<Rightarrow> bool" where
  "validConfidence v =
     (case v of JNum (Fin q) \<Rightarrow> of_int \<lfloor>q\<rfloor> = q \<and> 0 \<le> q \<and> q \<le> 100 | _ \<Rightarrow> False)"

definition hasProp :: "jsval \<Rightarrow> string \<Rightarrow> (jsval \<Rightarrow> bool) \<Rightarrow> bool" where
  "hasProp v k P = (case getProp v k of Inl _ \<Rightarrow> False | Inr x \<Rightarrow> P x)"

definition conformsToSchema :: "jsval \<Rightarrow> bool" where
  "conformsToSchema v \<longleftrightarrow>
     hasProp v ''qualified'' isBoolean
     \<and> hasProp v ''extracted_data'' (\<lambda>d.
          hasProp d ''applicant_name'' isStringOrNull
          \<and> hasProp d ''mother_income'' isNumberOrNull
          \<and> hasProp d ''father_income'' isNumberOrNull
          \<and> hasProp d ''total_income'' isNumberOrNull
          \<and> hasProp d ''gwa'' isNumberOrNull
          \<and> hasProp d ''enrollment_status'' isStringOrNull
          \<and> hasProp d ''school'' isStringOrNull
          \<and> hasProp d ''course'' isStringOrNull)
     \<and> hasProp v ''evaluation'' (\<lambda>e.
          hasProp e ''income_check'' (\<lambda>c.
            hasProp c ''passed'' isBoolean
            \<and> hasProp c ''mother_value_found'' isNumberOrNull
            \<and> hasProp c ''father_value_found'' isNumberOrNull
            \<and> hasProp c ''total_value_found'' isNumberOrNull
            \<and> hasProp c ''threshold'' isNumber
            \<and> hasProp c ''income_verified'' isBoolean
            \<and> hasProp c ''reason'' isString)
          \<and> hasProp e ''gwa_check'' (\<lambda>c.
            hasProp c ''passed'' isBoolean
            \<and> hasProp c ''value_found'' isNumberOrNull
            \<and> hasProp c ''threshold'' isNumber
            \<and> hasProp c ''reason'' isString))
     \<and> hasProp v ''disqualification_reasons'' isStringArray
     \<and> hasProp v ''confidence_score'' validConfidence
     \<and> hasProp v ''ocr_quality'' (\<lambda>q. q = JStr ''good'' \<or> q = JStr ''fair'' \<or> q = JStr ''poor'')
     \<and> hasProp v ''notes'' isString"

text \<open>The overall verdict agrees with the two checks: qualified exactly when both passed.\<close>

definition qualifiedIffBothPassed :: "jsval \<Rightarrow> bool" where
  "qualifiedIffBothPassed v \<longleftrightarrow>
     ((getPath v [''qualified''] = Inr (JBool True)) =
      (getPath v [''evaluation'', ''income_check'', ''passed''] = Inr (JBool True)
       \<and> getPath v [''evaluation'', ''gwa_check'', ''passed''] = Inr (JBool True)))"

text \<open>
  The content type the claim about storage expects for a document: a plain-text upload is
  declared as a PDF, every other type is kept.
\<close>

definition storedContentType :: "upload_file \<Rightarrow> string" where
  "storedContentType f =
     (if file_mimetype f = ''text/plain'' then ''application/pdf'' else file_mimetype f)"

section \<open>Sample inputs\<close>

text \<open>
  Concrete inputs on which the theorems below are instantiated. The sample runtime prints
  the few numbers the samples meet; the sample services run without mock mode, with an API
  key, and with an engine that answers the given text.
\<close>

definition sampleRuntime :: runtime where
  "sampleRuntime =
     \<lparr>toLocaleString = (\<lambda>n. if n = Fin 25000 then ''25,000'' else if n = Fin 30000 then ''30,000''
                              else if n = Fin 20000 then ''20,000'' else ''NaN''),
      numToString = (\<lambda>n. if n = Fin (5 / 2) then ''2.5'' else if n = Fin 3 then ''3''
                           else if n = Fin 17 then ''17'' else ''NaN'')\<rparr>"

definition sampleServices :: "string \<Rightarrow> services" where
  "sampleServices reply =
     \<lparr>USE_MOCK_EVALUATION = None,
      GROQ_API_KEY = Some ''key'',
      rt = sampleRuntime,
      now = 17,
      pdfParse = (\<lambda>buffer. Inr '' Monthly Salary: 13000 ''),
      recognize = (\<lambda>p lang. Inr ''GWA: 2.5 ''),
      ruleRows = Some [(''max_monthly_income'', ''30000''), (''max_gwa'', ''3.0'')],
      chatCompletion = Inr reply,
      storageUpload = (\<lambda>p buffer contentType. None),
      dbInsert = (\<lambda>row. Inr (JObj [(''status'', JStr (row_status row))]))\<rparr>"

definition sampleMotherFile :: upload_file where
  "sampleMotherFile =
     \<lparr>file_path = ''uploads/m1'', file_mimetype = ''text/plain'', file_originalname = ''mother.txt''\<rparr>"

definition sampleFatherFile :: upload_file where
  "sampleFatherFile =
     \<lparr>file_path = ''uploads/f1'', file_mimetype = ''application/pdf'', file_originalname = ''father.pdf''\<rparr>"

definition sampleReportFile :: upload_file where
  "sampleReportFile =
     \<lparr>file_path = ''uploads/r1'', file_mimetype = ''image/png'', file_originalname = ''report.png''\<rparr>"

definition sampleRequest :: request where
  "sampleRequest =
     \<lparr>req_user_id = ''u1'',
      mother_certificate = Some sampleMotherFile,
      father_certificate = Some sampleFatherFile,
      report_card = Some sampleReportFile,
      mother_income = Some ''12000'',
      father_income = Some ''13000''\<rparr>"

definition sampleWorld :: world where
  "sampleWorld =
     \<lparr>files = [''uploads/m1'' \<mapsto> '' Monthly Salary: 12000 '', ''uploads/f1'' \<mapsto> ''%PDF-1.4'',
               ''uploads/r1'' \<mapsto> ''PNG''],
      uploads = [],
      rows = []\<rparr>"

section \<open>Properties\<close>

lemmas number_reading =
  parseInt_def parseFloat_def scanDecimal_def scanUnsignedDecimal_def scanExponent_def
  trimStart_def isStrWhiteSpaceChar_def decDigit_def hexDigit_def digitsVal_def digitVal_def
  scale10_def orDefault_def

lemmas mock_constants =
  mockTotalIncome_def mockMotherIncome_def mockFatherIncome_def mockGWA_def

lemmas sample_inputs =
  sampleServices_def sampleRuntime_def sampleRequest_def sampleWorld_def sampleMotherFile_def
  sampleFatherFile_def sampleReportFile_def

lemmas json_reading =
  JSON_parse_def isJsonWhiteSpace_def scanJsonNumber_def decDigit_def digitsVal_def digitVal_def
  scanExponent_def scale10_def

lemmas route_steps =
  submit_def submitTry_def uploadDocuments_def extractDocuments_def evaluateDocuments_def
  processApplication_def extractText_def readFileSync_def evaluateWithAI_def USE_MOCK_MODE_def
  groq_def loadRules_def deriveStatus_def textOf_def falsy_def unlinkIfExists_def
  trim_def trimStart_def isStrWhiteSpaceChar_def

subsection \<open>The status of an application\<close>

text \<open>
  C1. For an evaluation result whose confidence score is a number and whose verdict is a
  boolean, the status is \<^verbatim>\<open>manual_review\<close> when the score is below 60, whatever the verdict;
  otherwise it is \<^verbatim>\<open>qualified\<close> for a true verdict and \<^verbatim>\<open>disqualified\<close> for a false one.
\<close>

theorem status_classification:
  assumes "getProp ev ''confidence_score'' = Inr (JNum (Fin c))"
    and "getProp ev ''qualified'' = Inr (JBool q)"
  shows "deriveStatus ev =
           Inr (if c < 60 then ''manual_review'' else if q then ''qualified'' else ''disqualified'')"
  using assms by (simp add: deriveStatus_def)

theorem status_classification_witness:
  "deriveStatus (JObj [(''qualified'', JBool True), (''confidence_score'', JNum (Fin 45))])
     = Inr ''manual_review''"
  using status_classification
    [of "JObj [(''qualified'', JBool True), (''confidence_score'', JNum (Fin 45))]" 45 True]
  by simp

subsection \<open>The mock evaluator\<close>

text \<open>
  C2. With the rules \<^verbatim>\<open>max_monthly_income = 30000\<close> and \<^verbatim>\<open>max_gwa = 3.0\<close> the mock evaluator
  returns a qualified result with incomes 12000 and 13000, total income 25000, GWA 2.5 and
  confidence score 95; and it returns that same result for every extracted text and every
  rule set with these two values, so the result depends on nothing else.
\<close>

theorem mock_default_thresholds:
  assumes "rules ''max_monthly_income'' = Some ''30000''" and "rules ''max_gwa'' = Some ''3.0''"
    and "rules' ''max_monthly_income'' = Some ''30000''" and "rules' ''max_gwa'' = Some ''3.0''"
  shows "getPath (generateMockEvaluation r text rules) [''qualified''] = Inr (JBool True)
       \<and> getPath (generateMockEvaluation r text rules) [''extracted_data'', ''mother_income'']
           = Inr (JNum (Fin 12000))
       \<and> getPath (generateMockEvaluation r text rules) [''extracted_data'', ''father_income'']
           = Inr (JNum (Fin 13000))
       \<and> getPath (generateMockEvaluation r text rules) [''extracted_data'', ''total_income'']
           = Inr (JNum (Fin 25000))
       \<and> getPath (generateMockEvaluation r text rules) [''extracted_data'', ''gwa'']
           = Inr (JNum (Fin (5 / 2)))
       \<and> getPath (generateMockEvaluation r text rules) [''confidence_score''] = Inr (JNum (Fin 95))
       \<and> generateMockEvaluation r text' rules' = generateMockEvaluation r text rules"
  using assms by (simp add: generateMockEvaluation_def Let_def number_reading mock_constants)

theorem mock_default_thresholds_witness:
  "getPath (generateMockEvaluation sampleRuntime ''any text''
              [''max_monthly_income'' \<mapsto> ''30000'', ''max_gwa'' \<mapsto> ''3.0''])
     [''qualified''] = Inr (JBool True)
   \<and> getPath (generateMockEvaluation sampleRuntime ''any text''
              [''max_monthly_income'' \<mapsto> ''30000'', ''max_gwa'' \<mapsto> ''3.0''])
     [''extracted_data'', ''total_income''] = Inr (JNum (Fin 25000))
   \<and> generateMockEvaluation sampleRuntime ''other text''
        [''max_gwa'' \<mapsto> ''3.0'', ''max_monthly_income'' \<mapsto> ''30000'', ''min_age'' \<mapsto> ''16'']
      = generateMockEvaluation sampleRuntime ''any text''
          [''max_monthly_income'' \<mapsto> ''30000'', ''max_gwa'' \<mapsto> ''3.0'']"
  using mock_default_thresholds
    [of "[''max_monthly_income'' \<mapsto> ''30000'', ''max_gwa'' \<mapsto> ''3.0'']"
        "[''max_gwa'' \<mapsto> ''3.0'', ''max_monthly_income'' \<mapsto> ''30000'', ''min_age'' \<mapsto> ''16'']"
        sampleRuntime "''any text''" "''other text''"]
  by simp

text \<open>
  C8. The two \<^verbatim>\<open>passed\<close> flags are the comparisons of the fixed applicant (total income 25000,
  GWA 2.5) with the thresholds read from the rule set that was passed in. In particular a
  rule set with \<^verbatim>\<open>max_monthly_income = 20000\<close> fails the income check and the qualification.
\<close>

theorem mock_passed_flags_follow_rules:
  "getPath (generateMockEvaluation r text rules) [''evaluation'', ''income_check'', ''passed'']
     = Inr (JBool (js_le (Fin 25000) (parseInt (orDefault (rules ''max_monthly_income'') ''30000''))))
   \<and> getPath (generateMockEvaluation r text rules) [''evaluation'', ''gwa_check'', ''passed'']
     = Inr (JBool (js_le (Fin (5 / 2)) (parseFloat (orDefault (rules ''max_gwa'') ''3.0''))))
   \<and> getPath (generateMockEvaluation r text rules) [''evaluation'', ''income_check'', ''total_value_found'']
     = Inr (JNum (Fin 25000))
   \<and> (rules ''max_monthly_income'' = Some ''20000'' \<longrightarrow>
        getPath (generateMockEvaluation r text rules) [''evaluation'', ''income_check'', ''passed'']
          = Inr (JBool False)
        \<and> getPath (generateMockEvaluation r text rules) [''qualified''] = Inr (JBool False))"
proof (intro conjI impI)
  assume low: "rules ''max_monthly_income'' = Some ''20000''"
  then show "getPath (generateMockEvaluation r text rules) [''evaluation'', ''income_check'', ''passed'']
          = Inr (JBool False)"
    by (simp add: generateMockEvaluation_def Let_def number_reading mock_constants)
  from low show "getPath (generateMockEvaluation r text rules) [''qualified''] = Inr (JBool False)"
    by (simp add: generateMockEvaluation_def Let_def number_reading mock_constants)
qed (simp_all add: generateMockEvaluation_def Let_def mock_constants)

theorem mock_passed_flags_follow_rules_witness:
  "getPath (generateMockEvaluation sampleRuntime ''any text'' [''max_monthly_income'' \<mapsto> ''20000''])
     [''evaluation'', ''income_check'', ''passed''] = Inr (JBool False)
   \<and> getPath (generateMockEvaluation sampleRuntime ''any text'' [''max_monthly_income'' \<mapsto> ''20000''])
     [''qualified''] = Inr (JBool False)
   \<and> getPath (generateMockEvaluation sampleRuntime ''any text'' [''max_monthly_income'' \<mapsto> ''30000''])
     [''evaluation'', ''income_check'', ''passed''] = Inr (JBool True)"
  using mock_passed_flags_follow_rules [of sampleRuntime "''any text''" "[''max_monthly_income'' \<mapsto> ''20000'']"]
    mock_passed_flags_follow_rules [of sampleRuntime "''any text''" "[''max_monthly_income'' \<mapsto> ''30000'']"]
  by (simp add: number_reading)

text \<open>The mock result has the shape the prompt asks the engine for.\<close>

lemma mock_result_conforms: "conformsToSchema (generateMockEvaluation r text Map.empty)"
  by (simp add: conformsToSchema_def hasProp_def generateMockEvaluation_def Let_def
      number_reading mock_constants isBoolean_def isString_def isStringOrNull_def isNumber_def
      isNumberOrNull_def isStringArray_def validConfidence_def)

subsection \<open>Text extraction\<close>

text \<open>
  C10. For a declared type that is neither \<^verbatim>\<open>text/plain\<close> nor \<^verbatim>\<open>application/pdf\<close>, whatever it
  is, \<^verbatim>\<open>extractText\<close> reads no file itself and makes one call, the OCR of the path in English;
  its result is the trimmed text of the OCR, or the error the OCR raised. No error for an
  unsupported type is raised at this layer.
\<close>

theorem unlisted_mimetype_goes_to_ocr:
  assumes "mimetype \<noteq> Some ''text/plain''" and "mimetype \<noteq> Some ''application/pdf''"
  shows "extractText sv fs imagePath mimetype =
           ([TesseractRecognize imagePath ''eng''],
            case recognize sv imagePath ''eng'' of Inl e \<Rightarrow> Inl e | Inr text \<Rightarrow> Inr (trim text))"
  using assms by (simp add: extractText_def)

theorem unlisted_mimetype_goes_to_ocr_witness:
  "extractText (sampleServices ''{}'') (files sampleWorld) (Some ''uploads/z1'') (Some ''application/zip'')
     = ([TesseractRecognize (Some ''uploads/z1'') ''eng''], Inr ''GWA: 2.5'')"
  using unlisted_mimetype_goes_to_ocr
    [of "Some ''application/zip''" "sampleServices ''{}''" "files sampleWorld" "Some ''uploads/z1''"]
  by (simp add: sampleServices_def trim_def trimStart_def isStrWhiteSpaceChar_def)

subsection \<open>The steps of the route\<close>

text \<open>
  What each step of the \<^verbatim>\<open>try\<close> block leaves unchanged and what it adds: no step touches the
  transient files, only step 1 calls the object store, only the last step inserts a row.
\<close>

lemma uploadDocuments_files:
  "files (snd (uploadDocuments sv req mf ff rf w)) = files w"
  by (simp add: uploadDocuments_def Let_def split: sum.splits option.splits split del: if_split)

lemma uploadDocuments_rows:
  "rows (snd (uploadDocuments sv req mf ff rf w)) = rows w"
  by (simp add: uploadDocuments_def Let_def split: sum.splits option.splits split del: if_split)

lemma uploadDocuments_uploads:
  "\<exists>us. uploads (snd (uploadDocuments sv req mf ff rf w)) = uploads w @ us
      \<and> map (\<lambda>u. snd (snd u)) us
          = take (length us) [storedContentType mf, storedContentType ff, storedContentType rf]"
  by (simp add: uploadDocuments_def Let_def storedContentType_def
      split: sum.splits option.splits split del: if_split)

lemma uploadDocuments_all_uploaded:
  "uploadDocuments sv req mf ff rf w = (Inr paths, w') \<Longrightarrow>
     map (\<lambda>u. snd (snd u)) (drop (length (uploads w)) (uploads w'))
       = [storedContentType mf, storedContentType ff, storedContentType rf]"
  by (auto simp add: uploadDocuments_def Let_def storedContentType_def
      split: sum.splits option.splits split del: if_split)

lemma submitTry_files:
  "files (snd (submitTry sv req mf ff rf mi fi w)) = files w"
proof -
  obtain r w3 where u: "uploadDocuments sv req mf ff rf w = (r, w3)"
    by (cases "uploadDocuments sv req mf ff rf w")
  then have "files w3 = files w"
    using uploadDocuments_files [of sv req mf ff rf w] by simp
  with u show ?thesis
    by (simp add: submitTry_def split: sum.splits)
qed

lemma submitTry_uploads:
  "uploads (snd (submitTry sv req mf ff rf mi fi w))
     = uploads (snd (uploadDocuments sv req mf ff rf w))"
proof -
  obtain r w3 where u: "uploadDocuments sv req mf ff rf w = (r, w3)"
    by (cases "uploadDocuments sv req mf ff rf w")
  then show ?thesis
    by (simp add: submitTry_def split: sum.splits)
qed

lemma files_unlinkIfExists: "files (unlinkIfExists p w) = (files w)(p := None)"
  by (auto simp: unlinkIfExists_def)

lemma uploads_unlinkIfExists: "uploads (unlinkIfExists p w) = uploads w"
  by (simp add: unlinkIfExists_def)

lemma rows_unlinkIfExists: "rows (unlinkIfExists p w) = rows w"
  by (simp add: unlinkIfExists_def)

lemma extractOnly_result:
  "processApplication sv fs (Some p) (Some m) None True = Inr pr \<Longrightarrow>
     \<exists>t. snd (extractText sv fs (Some p) (Some m)) = Inr t \<and> extractedText pr = Some t"
  by (auto simp: processApplication_def split: if_splits sum.splits)

lemma extractDocuments_texts:
  assumes "extractDocuments sv fs mf ff rf = Inr (mText, fText, rText)"
  shows "snd (extractText sv fs (Some (file_path mf)) (Some (file_mimetype mf))) = Inr mText
       \<and> snd (extractText sv fs (Some (file_path ff)) (Some (file_mimetype ff))) = Inr fText
       \<and> snd (extractText sv fs (Some (file_path rf)) (Some (file_mimetype rf))) = Inr rText"
proof -
  from assms obtain p1 p2 p3 where
    p1: "processApplication sv fs (Some (file_path mf)) (Some (file_mimetype mf)) None True = Inr p1"
    and p2: "processApplication sv fs (Some (file_path ff)) (Some (file_mimetype ff)) None True = Inr p2"
    and p3: "processApplication sv fs (Some (file_path rf)) (Some (file_mimetype rf)) None True = Inr p3"
    and texts: "mText = textOf (extractedText p1)" "fText = textOf (extractedText p2)"
      "rText = textOf (extractedText p3)"
    by (auto simp: extractDocuments_def Let_def split: sum.splits)
  from extractOnly_result [OF p1] extractOnly_result [OF p2] extractOnly_result [OF p3] texts
  show ?thesis by (auto simp: textOf_def)
qed

lemma evaluateDocuments_row:
  assumes "evaluateDocuments sv req fs mi fi paths (mText, fText, rText) = Inr row"
  shows "row_extracted_text row = buildCombinedText mText fText rText
       \<and> deriveStatus (row_evaluation_result row) = Inr (row_status row)
       \<and> getProp (row_evaluation_result row) ''qualified'' = Inr (row_qualified row)
       \<and> getProp (row_evaluation_result row) ''confidence_score'' = Inr (row_confidence_score row)"
  using assms
  by (cases paths) (auto simp: evaluateDocuments_def Let_def split: sum.splits prod.splits)

text \<open>
  The handler as a whole: a request that fails a check is answered with status 400 and
  nothing else happens; any other request runs the \<^verbatim>\<open>try\<close> block and then the \<^verbatim>\<open>finally\<close>
  block, which removes the three transient files whatever the outcome was.
\<close>

lemma submit_validated:
  assumes "mother_certificate req = Some mf" and "father_certificate req = Some ff"
    and "report_card req = Some rf"
    and "\<not> falsy (mother_income req)" and "\<not> falsy (father_income req)"
  shows "submit sv req w =
           (case fst (submitTry sv req mf ff rf (parseFloat (textOf (mother_income req)))
                        (parseFloat (textOf (father_income req))) w) of
              Inl err \<Rightarrow> ServerError err | Inr application \<Rightarrow> Success application,
            unlinkIfExists (file_path rf) (unlinkIfExists (file_path ff) (unlinkIfExists (file_path mf)
              (snd (submitTry sv req mf ff rf (parseFloat (textOf (mother_income req)))
                        (parseFloat (textOf (father_income req))) w)))))"
  using assms by (simp add: submit_def Let_def split_beta)

lemma submit_rejected:
  assumes "mother_certificate req = None \<or> father_certificate req = None \<or> report_card req = None
           \<or> falsy (mother_income req) \<or> falsy (father_income req)"
  shows "\<exists>msg. submit sv req w = (BadRequest msg, w)"
  using assms by (auto simp: submit_def split: option.splits)

lemma submit_cleans_up:
  assumes "mother_certificate req = Some mf" and "father_certificate req = Some ff"
    and "report_card req = Some rf"
    and "\<not> falsy (mother_income req)" and "\<not> falsy (father_income req)"
  shows "files (snd (submit sv req w))
           = (files w)(file_path mf := None, file_path ff := None, file_path rf := None)"
  by (simp add: submit_validated [OF assms] files_unlinkIfExists submitTry_files)

subsection \<open>The combined text\<close>

text \<open>
  C6. The combined text is the mother's text, the father's text and the report card's text,
  in this order, each after its label; labels and separators are constants. In every
  submission that succeeds, the text stored with the application is this concatenation of
  the three texts extracted from the mother's, the father's and the report card's file.
\<close>

theorem combined_text_labels_and_order:
  "buildCombinedText mText fText rText =
     ''Mother's Income Certificate:\<newline>'' @ mText
     @ ''\<newline>\<newline>Father's Income Certificate:\<newline>'' @ fText
     @ ''\<newline>\<newline>Report Card:\<newline>'' @ rText
   \<and> (\<forall>sv req w mf ff rf application w'.
         mother_certificate req = Some mf \<and> father_certificate req = Some ff
         \<and> report_card req = Some rf \<and> submit sv req w = (Success application, w') \<longrightarrow>
         (\<exists>m f r row.
            snd (extractText sv (files w) (Some (file_path mf)) (Some (file_mimetype mf))) = Inr m
            \<and> snd (extractText sv (files w) (Some (file_path ff)) (Some (file_mimetype ff))) = Inr f
            \<and> snd (extractText sv (files w) (Some (file_path rf)) (Some (file_mimetype rf))) = Inr r
            \<and> rows w' = rows w @ [row]
            \<and> row_extracted_text row = buildCombinedText m f r))"
proof (intro conjI allI impI)
  show "buildCombinedText mText fText rText =
     ''Mother's Income Certificate:\<newline>'' @ mText
     @ ''\<newline>\<newline>Father's Income Certificate:\<newline>'' @ fText
     @ ''\<newline>\<newline>Report Card:\<newline>'' @ rText"
    by (simp add: buildCombinedText_def)
next
  fix sv req w mf ff rf application w'
  assume a: "mother_certificate req = Some mf \<and> father_certificate req = Some ff
         \<and> report_card req = Some rf \<and> submit sv req w = (Success application, w')"
  then have present: "mother_certificate req = Some mf" "father_certificate req = Some ff"
    "report_card req = Some rf" and ok: "submit sv req w = (Success application, w')"
    by simp_all
  have valid: "\<not> falsy (mother_income req)" "\<not> falsy (father_income req)"
    using submit_rejected [of req sv w] ok by auto
  define mi where "mi = parseFloat (textOf (mother_income req))"
  define fi where "fi = parseFloat (textOf (father_income req))"
  obtain outcome w4 where t: "submitTry sv req mf ff rf mi fi w = (outcome, w4)"
    by (cases "submitTry sv req mf ff rf mi fi w")
  from ok t have outcome: "outcome = Inr application"
    and w': "w' = unlinkIfExists (file_path rf) (unlinkIfExists (file_path ff)
                    (unlinkIfExists (file_path mf) w4))"
    using submit_validated [OF present valid, of sv w]
    by (auto simp: mi_def fi_def split: sum.splits)
  obtain r w3 where u: "uploadDocuments sv req mf ff rf w = (r, w3)"
    by (cases "uploadDocuments sv req mf ff rf w")
  have fs: "files w3 = files w" and rs: "rows w3 = rows w"
    using u uploadDocuments_files [of sv req mf ff rf w] uploadDocuments_rows [of sv req mf ff rf w]
    by simp_all
  from t outcome u obtain paths m f r' row where
    ex: "extractDocuments sv (files w3) mf ff rf = Inr (m, f, r')"
    and ev: "evaluateDocuments sv req (files w3) mi fi paths (m, f, r') = Inr row"
    and w4: "w4 = w3\<lparr>rows := rows w3 @ [row]\<rparr>"
    by (auto simp: submitTry_def split: sum.splits)
  from extractDocuments_texts [OF ex] evaluateDocuments_row [OF ev] fs rs w4 w'
  show "\<exists>m f r row.
            snd (extractText sv (files w) (Some (file_path mf)) (Some (file_mimetype mf))) = Inr m
            \<and> snd (extractText sv (files w) (Some (file_path ff)) (Some (file_mimetype ff))) = Inr f
            \<and> snd (extractText sv (files w) (Some (file_path rf)) (Some (file_mimetype rf))) = Inr r
            \<and> rows w' = rows w @ [row]
            \<and> row_extracted_text row = buildCombinedText m f r"
    by (auto simp: rows_unlinkIfExists)
qed

theorem combined_text_labels_and_order_witness:
  "map row_extracted_text
     (rows (snd (submit (sampleServices ''{\"qualified\": true, \"confidence_score\": 90}'')
                   sampleRequest sampleWorld)))
   = [''Mother's Income Certificate:\<newline>Monthly Salary: 12000''
      @ ''\<newline>\<newline>Father's Income Certificate:\<newline>Monthly Salary: 13000''
      @ ''\<newline>\<newline>Report Card:\<newline>GWA: 2.5'']"
proof -
  let ?sv = "sampleServices ''{\"qualified\": true, \"confidence_score\": 90}''"
  have run: "fst (submit ?sv sampleRequest sampleWorld) = Success (JObj [(''status'', JStr ''qualified'')])"
    by (simp add: route_steps sample_inputs json_reading Let_def)
  have texts:
    "snd (extractText ?sv (files sampleWorld) (Some (file_path sampleMotherFile))
            (Some (file_mimetype sampleMotherFile))) = Inr ''Monthly Salary: 12000''"
    "snd (extractText ?sv (files sampleWorld) (Some (file_path sampleFatherFile))
            (Some (file_mimetype sampleFatherFile))) = Inr ''Monthly Salary: 13000''"
    "snd (extractText ?sv (files sampleWorld) (Some (file_path sampleReportFile))
            (Some (file_mimetype sampleReportFile))) = Inr ''GWA: 2.5''"
    by (simp_all add: route_steps sample_inputs)
  have present: "mother_certificate sampleRequest = Some sampleMotherFile"
    "father_certificate sampleRequest = Some sampleFatherFile"
    "report_card sampleRequest = Some sampleReportFile"
    "rows sampleWorld = []"
    by (simp_all add: sampleRequest_def sampleWorld_def)
  from run have "submit ?sv sampleRequest sampleWorld
      = (Success (JObj [(''status'', JStr ''qualified'')]), snd (submit ?sv sampleRequest sampleWorld))"
    by (metis prod.collapse)
  with combined_text_labels_and_order [of "[]" "[]" "[]"] present
  obtain m f r row where
    "snd (extractText ?sv (files sampleWorld) (Some (file_path sampleMotherFile))
            (Some (file_mimetype sampleMotherFile))) = Inr m"
    "snd (extractText ?sv (files sampleWorld) (Some (file_path sampleFatherFile))
            (Some (file_mimetype sampleFatherFile))) = Inr f"
    "snd (extractText ?sv (files sampleWorld) (Some (file_path sampleReportFile))
            (Some (file_mimetype sampleReportFile))) = Inr r"
    "rows (snd (submit ?sv sampleRequest sampleWorld)) = rows sampleWorld @ [row]"
    "row_extracted_text row = buildCombinedText m f r"
    by blast
  with texts present show ?thesis
    by (simp add: buildCombinedText_def)
qed

subsection \<open>The transient files\<close>

text \<open>
  C7. A submission that carries the three documents but no mother's income is answered
  with status 400 before the \<^verbatim>\<open>try\<close> statement is reached: the world is left as it was, and
  the three transient files are still there. (On every other path \<open>submit_cleans_up\<close>
  applies and the files are gone.)
\<close>

theorem validation_failure_keeps_files:
  "submit (sampleServices ''{}'') (sampleRequest\<lparr>mother_income := None\<rparr>) sampleWorld
     = (BadRequest ''Both parent income values are required'', sampleWorld)
   \<and> files sampleWorld (file_path sampleMotherFile) = Some '' Monthly Salary: 12000 ''
   \<and> files sampleWorld (file_path sampleFatherFile) = Some ''%PDF-1.4''
   \<and> files sampleWorld (file_path sampleReportFile) = Some ''PNG''"
  by (simp add: submit_def falsy_def sample_inputs)

subsection \<open>The content type at storage\<close>

text \<open>
  C9. Every call the handler makes to the object store carries the content type
  \<^verbatim>\<open>application/pdf\<close> for a document declared \<^verbatim>\<open>text/plain\<close> and the declared type for any other
  document: the calls are made in the order mother, father, report, the handler may stop
  early, and a submission that succeeds has made all three.
\<close>

theorem stored_content_type:
  assumes "mother_certificate req = Some mf" and "father_certificate req = Some ff"
    and "report_card req = Some rf"
  shows "\<exists>us. uploads (snd (submit sv req w)) = uploads w @ us
            \<and> map (\<lambda>u. snd (snd u)) us
                = take (length us) [storedContentType mf, storedContentType ff, storedContentType rf]
            \<and> (\<forall>application. fst (submit sv req w) = Success application \<longrightarrow> length us = 3)"
proof (cases "falsy (mother_income req) \<or> falsy (father_income req)")
  case True
  then obtain msg where "submit sv req w = (BadRequest msg, w)"
    using submit_rejected [of req sv w] by blast
  then show ?thesis by simp
next
  case False
  define mi where "mi = parseFloat (textOf (mother_income req))"
  define fi where "fi = parseFloat (textOf (father_income req))"
  from False have s: "submit sv req w =
      (case fst (submitTry sv req mf ff rf mi fi w) of
         Inl err \<Rightarrow> ServerError err | Inr application \<Rightarrow> Success application,
       unlinkIfExists (file_path rf) (unlinkIfExists (file_path ff) (unlinkIfExists (file_path mf)
         (snd (submitTry sv req mf ff rf mi fi w)))))"
    using submit_validated [OF assms, of sv w] by (simp add: mi_def fi_def)
  obtain r w3 where u: "uploadDocuments sv req mf ff rf w = (r, w3)"
    by (cases "uploadDocuments sv req mf ff rf w")
  from uploadDocuments_uploads [of sv req mf ff rf w] u obtain us where
    us: "uploads w3 = uploads w @ us"
      "map (\<lambda>u. snd (snd u)) us
         = take (length us) [storedContentType mf, storedContentType ff, storedContentType rf]"
    by auto
  have up: "uploads (snd (submit sv req w)) = uploads w3"
    using u by (simp add: s uploads_unlinkIfExists submitTry_uploads)
  have "length us = 3" if ok: "fst (submit sv req w) = Success application" for application
  proof -
    from ok s obtain paths where "r = Inr paths"
      using u by (cases r) (auto simp: submitTry_def split: sum.splits)
    with u uploadDocuments_all_uploaded [of sv req mf ff rf w paths w3] us(1)
    have "map (\<lambda>u. snd (snd u)) us
            = [storedContentType mf, storedContentType ff, storedContentType rf]"
      by simp
    then have "length (map (\<lambda>u. snd (snd u)) us) = 3" by simp
    then show ?thesis by simp
  qed
  with up us show ?thesis by auto
qed

theorem stored_content_type_witness:
  "map (\<lambda>u. snd (snd u))
     (uploads (snd (submit (sampleServices ''{\"qualified\": true, \"confidence_score\": 90}'')
                      sampleRequest sampleWorld)))
   = [''application/pdf'', ''application/pdf'', ''image/png'']"
proof -
  let ?sv = "sampleServices ''{\"qualified\": true, \"confidence_score\": 90}''"
  have run: "fst (submit ?sv sampleRequest sampleWorld) = Success (JObj [(''status'', JStr ''qualified'')])"
    by (simp add: route_steps sample_inputs json_reading Let_def)
  have present: "mother_certificate sampleRequest = Some sampleMotherFile"
    "father_certificate sampleRequest = Some sampleFatherFile"
    "report_card sampleRequest = Some sampleReportFile"
    "uploads sampleWorld = []"
    by (simp_all add: sampleRequest_def sampleWorld_def)
  from stored_content_type [OF present(1-3), of ?sv sampleWorld] run present(4)
  have "map (\<lambda>u. snd (snd u)) (uploads (snd (submit ?sv sampleRequest sampleWorld)))
          = [storedContentType sampleMotherFile, storedContentType sampleFatherFile,
             storedContentType sampleReportFile]"
    by auto
  then show ?thesis
    by (simp add: storedContentType_def sampleMotherFile_def sampleFatherFile_def
        sampleReportFile_def)
qed

subsection \<open>The AI evaluator\<close>

text \<open>
  What \<^verbatim>\<open>evaluateWithAI\<close> returns outside mock mode is what the engine replied, read by
  \<^verbatim>\<open>JSON.parse\<close>, and nothing else.
\<close>

lemma evaluateWithAI_reply:
  assumes "\<not> USE_MOCK_MODE sv" and "evaluateWithAI sv text rules iv = Inr v"
  shows "\<exists>content. chatCompletion sv = Inr content \<and> JSON_parse content = Inr v"
  using assms by (auto simp: evaluateWithAI_def split: if_splits sum.splits)

lemma JSON_parse_error: "JSON_parse content = Inl e \<Longrightarrow> e = SyntaxError"
  by (auto simp: JSON_parse_def split: option.splits)

text \<open>
  C3, as stated, fails for the AI evaluator: an engine that answers a verdict of
  \<^verbatim>\<open>true\<close> next to a failed income check has its answer returned as the result.
\<close>

theorem ai_verdict_against_checks_counterexample:
  "evaluateWithAI
     (sampleServices
        (''{\"qualified\": true, \"evaluation\": {\"income_check\": {\"passed\": false}, ''
         @ ''\"gwa_check\": {\"passed\": true}}, \"confidence_score\": 90}''))
     ''GWA: 2.5'' Map.empty None
   = Inr (JObj
      [(''qualified'', JBool True),
       (''evaluation'', JObj
          [(''income_check'', JObj [(''passed'', JBool False)]),
           (''gwa_check'', JObj [(''passed'', JBool True)])]),
       (''confidence_score'', JNum (Fin 90))])
   \<and> \<not> qualifiedIffBothPassed (JObj
      [(''qualified'', JBool True),
       (''evaluation'', JObj
          [(''income_check'', JObj [(''passed'', JBool False)]),
           (''gwa_check'', JObj [(''passed'', JBool True)])]),
       (''confidence_score'', JNum (Fin 90))])"
  by (simp add: evaluateWithAI_def USE_MOCK_MODE_def groq_def sampleServices_def json_reading
      qualifiedIffBothPassed_def)

text \<open>
  C3, amended. The result of the mock evaluator is qualified exactly when both of its
  checks passed, for every rule set; in mock mode this is what \<^verbatim>\<open>evaluateWithAI\<close> returns.
  Outside mock mode the result is the engine's reply as parsed, so it has the property only
  when the reply has it.
\<close>

theorem mock_verdict_agrees_with_checks:
  "qualifiedIffBothPassed (generateMockEvaluation r text rules)
   \<and> (USE_MOCK_MODE sv \<longrightarrow>
        (\<exists>v. evaluateWithAI sv text rules iv = Inr v \<and> qualifiedIffBothPassed v))
   \<and> (\<not> USE_MOCK_MODE sv \<and> evaluateWithAI sv text rules iv = Inr v \<longrightarrow>
        (\<exists>content. chatCompletion sv = Inr content \<and> JSON_parse content = Inr v))"
proof (intro conjI impI)
  have mock: "qualifiedIffBothPassed (generateMockEvaluation r text rules)" for r
    by (simp add: qualifiedIffBothPassed_def generateMockEvaluation_def Let_def)
  then show "qualifiedIffBothPassed (generateMockEvaluation r text rules)" .
  assume "USE_MOCK_MODE sv"
  then have "evaluateWithAI sv text rules iv = Inr (generateMockEvaluation (rt sv) text rules)"
    by (simp add: evaluateWithAI_def)
  with mock [of "rt sv"]
  show "\<exists>v. evaluateWithAI sv text rules iv = Inr v \<and> qualifiedIffBothPassed v"
    by simp
next
  assume "\<not> USE_MOCK_MODE sv \<and> evaluateWithAI sv text rules iv = Inr v"
  then show "\<exists>content. chatCompletion sv = Inr content \<and> JSON_parse content = Inr v"
    using evaluateWithAI_reply [of sv "text" rules iv v] by simp
qed

theorem mock_verdict_agrees_with_checks_witness:
  "qualifiedIffBothPassed
     (generateMockEvaluation sampleRuntime ''GWA: 2.5'' [''max_monthly_income'' \<mapsto> ''20000''])
   \<and> (\<exists>v. evaluateWithAI ((sampleServices ''{}'')\<lparr>USE_MOCK_EVALUATION := Some ''true''\<rparr>)
              ''GWA: 2.5'' [''max_monthly_income'' \<mapsto> ''20000''] None = Inr v
          \<and> qualifiedIffBothPassed v)
   \<and> (\<exists>content. chatCompletion (sampleServices ''{}'') = Inr content
          \<and> JSON_parse content = Inr (JObj []))"
proof -
  have mock: "USE_MOCK_MODE ((sampleServices ''{}'')\<lparr>USE_MOCK_EVALUATION := Some ''true''\<rparr>)"
    by (simp add: USE_MOCK_MODE_def sampleServices_def)
  have ai: "\<not> USE_MOCK_MODE (sampleServices ''{}'')
            \<and> evaluateWithAI (sampleServices ''{}'') ''GWA: 2.5'' Map.empty None = Inr (JObj [])"
    by (simp add: evaluateWithAI_def USE_MOCK_MODE_def groq_def sampleServices_def json_reading)
  from mock ai
    mock_verdict_agrees_with_checks
      [of sampleRuntime "''GWA: 2.5''" "[''max_monthly_income'' \<mapsto> ''20000'']"
          "(sampleServices ''{}'')\<lparr>USE_MOCK_EVALUATION := Some ''true''\<rparr>" None "JObj []"]
    mock_verdict_agrees_with_checks
      [of sampleRuntime "''GWA: 2.5''" Map.empty "sampleServices ''{}''" None "JObj []"]
  show ?thesis by blast
qed

text \<open>
  C4, as stated, fails: the reply \<^verbatim>\<open>{}\<close> has none of the properties of an evaluation result,
  and it is returned as the result.
\<close>

theorem ai_accepts_empty_object_counterexample:
  "evaluateWithAI (sampleServices ''{}'') ''GWA: 2.5'' Map.empty None = Inr (JObj [])
   \<and> \<not> conformsToSchema (JObj [])"
  by (simp add: evaluateWithAI_def USE_MOCK_MODE_def groq_def sampleServices_def json_reading
      conformsToSchema_def hasProp_def isBoolean_def)

text \<open>
  C4, amended. Outside mock mode, with a client and a reply from the engine, the result of
  \<^verbatim>\<open>evaluateWithAI\<close> is the result of \<^verbatim>\<open>JSON.parse\<close> on the reply: a reply that is not JSON
  raises the SyntaxError of the parser and yields no result, and every reply that is JSON
  is returned as parsed, whatever its shape.
\<close>

theorem ai_returns_parsed_reply:
  assumes "\<not> USE_MOCK_MODE sv" and "groq sv" and "chatCompletion sv = Inr content"
  shows "evaluateWithAI sv text rules iv = JSON_parse content
       \<and> (JSON_parse content = Inl SyntaxError \<or> (\<exists>v. JSON_parse content = Inr v))"
proof
  from assms show "evaluateWithAI sv text rules iv = JSON_parse content"
    by (simp add: evaluateWithAI_def)
  show "JSON_parse content = Inl SyntaxError \<or> (\<exists>v. JSON_parse content = Inr v)"
    by (cases "JSON_parse content") (auto dest: JSON_parse_error)
qed

theorem ai_returns_parsed_reply_witness:
  "evaluateWithAI (sampleServices ''{\"qualified\": tru'') ''GWA: 2.5'' Map.empty None
     = Inl SyntaxError
   \<and> evaluateWithAI (sampleServices ''[1, 2]'') ''GWA: 2.5'' Map.empty None
     = Inr (JArr [JNum (Fin 1), JNum (Fin 2)])"
proof -
  have setting: "\<not> USE_MOCK_MODE (sampleServices reply)" "groq (sampleServices reply)"
    "chatCompletion (sampleServices reply) = Inr reply" for reply
    by (simp_all add: USE_MOCK_MODE_def groq_def sampleServices_def)
  have parsed: "JSON_parse ''{\"qualified\": tru'' = Inl SyntaxError"
    "JSON_parse ''[1, 2]'' = Inr (JArr [JNum (Fin 1), JNum (Fin 2)])"
    by (simp_all add: json_reading)
  from ai_returns_parsed_reply [OF setting, of "''{\"qualified\": tru''" "''GWA: 2.5''" Map.empty None]
    ai_returns_parsed_reply [OF setting, of "''[1, 2]''" "''GWA: 2.5''" Map.empty None]
    parsed
  show ?thesis by simp
qed

text \<open>
  C5, as stated, fails for the AI evaluator: a reply with the confidence score 150 is
  returned with that score.
\<close>

theorem ai_confidence_out_of_range_counterexample:
  "evaluateWithAI (sampleServices ''{\"qualified\": true, \"confidence_score\": 150}'')
     ''GWA: 2.5'' Map.empty None
   = Inr (JObj [(''qualified'', JBool True), (''confidence_score'', JNum (Fin 150))])
   \<and> getProp (JObj [(''qualified'', JBool True), (''confidence_score'', JNum (Fin 150))])
        ''confidence_score'' = Inr (JNum (Fin 150))
   \<and> \<not> validConfidence (JNum (Fin 150))"
  by (simp add: evaluateWithAI_def USE_MOCK_MODE_def groq_def sampleServices_def json_reading
      validConfidence_def)

text \<open>
  C5, amended. The confidence score of the mock evaluator's result is 95, an integer from 0
  to 100, for every text and rule set; this is the result of \<^verbatim>\<open>evaluateWithAI\<close> in mock mode.
  Outside mock mode the score of the result is the score of the engine's reply as parsed,
  whatever it is.
\<close>

theorem mock_confidence_in_range:
  "getProp (generateMockEvaluation r text rules) ''confidence_score'' = Inr (JNum (Fin 95))
   \<and> validConfidence (JNum (Fin 95))
   \<and> (USE_MOCK_MODE sv \<longrightarrow>
        (\<exists>v. evaluateWithAI sv text rules iv = Inr v
            \<and> getProp v ''confidence_score'' = Inr (JNum (Fin 95))))
   \<and> (\<not> USE_MOCK_MODE sv \<and> evaluateWithAI sv text rules iv = Inr v \<longrightarrow>
        (\<exists>content parsed. chatCompletion sv = Inr content \<and> JSON_parse content = Inr parsed
            \<and> getProp v ''confidence_score'' = getProp parsed ''confidence_score''))"
proof (intro conjI impI)
  have score: "getProp (generateMockEvaluation r text rules) ''confidence_score''
                 = Inr (JNum (Fin 95))" for r
    by (simp add: generateMockEvaluation_def Let_def)
  then show "getProp (generateMockEvaluation r text rules) ''confidence_score''
               = Inr (JNum (Fin 95))" .
  show "validConfidence (JNum (Fin 95))"
    by (simp add: validConfidence_def)
  assume "USE_MOCK_MODE sv"
  then have "evaluateWithAI sv text rules iv = Inr (generateMockEvaluation (rt sv) text rules)"
    by (simp add: evaluateWithAI_def)
  with score [of "rt sv"]
  show "\<exists>v. evaluateWithAI sv text rules iv = Inr v
          \<and> getProp v ''confidence_score'' = Inr (JNum (Fin 95))"
    by simp
next
  assume "\<not> USE_MOCK_MODE sv \<and> evaluateWithAI sv text rules iv = Inr v"
  then obtain content where "chatCompletion sv = Inr content" "JSON_parse content = Inr v"
    using evaluateWithAI_reply [of sv "text" rules iv v] by auto
  then show "\<exists>content parsed. chatCompletion sv = Inr content \<and> JSON_parse content = Inr parsed
               \<and> getProp v ''confidence_score'' = getProp parsed ''confidence_score''"
    by auto
qed

theorem mock_confidence_in_range_witness:
  "\<exists>v. evaluateWithAI ((sampleServices ''{}'')\<lparr>USE_MOCK_EVALUATION := Some ''true''\<rparr>)
          ''GWA: 2.5'' [''max_gwa'' \<mapsto> ''2.0''] None = Inr v
      \<and> getProp v ''confidence_score'' = Inr (JNum (Fin 95))"
proof -
  have "USE_MOCK_MODE ((sampleServices ''{}'')\<lparr>USE_MOCK_EVALUATION := Some ''true''\<rparr>)"
    by (simp add: USE_MOCK_MODE_def sampleServices_def)
  with mock_confidence_in_range
      [of sampleRuntime "''GWA: 2.5''" "[''max_gwa'' \<mapsto> ''2.0'']"
          "(sampleServices ''{}'')\<lparr>USE_MOCK_EVALUATION := Some ''true''\<rparr>" None JNull]
  show ?thesis by blast
qed

end
